theory Spec2Isabelle
  imports Complex_Main "HOL-Library.Word" "HOL-Library.Sublist"
begin

section \<open>The Sora2API client of services/api/sora.ts\<close>

text \<open>
  The module holds one \<open>SoraApiClient\<close> object (\<open>soraApiClient\<close>) with two private
  fields, \<open>baseUrl\<close> and \<open>token\<close>, and an object \<open>soraConfigApi\<close> whose methods read
  the browser's local storage and drive the client. Every method is modelled as a function
  on an explicit state; the network and the storage are inputs of the model.
\<close>

subsection \<open>Strings and values\<close>

text \<open>
  A JavaScript string is a sequence of UTF-16 code units. ASCII literals of the source are
  written with \<open>ascii\<close>; the Chinese literals are written out as their code units.
\<close>

type_synonym jsstring = "16 word list"

definition ascii :: "string \<Rightarrow> jsstring" where
  "ascii s = map of_char s"

text \<open>
  Numbers are IEEE doubles. Only their truthiness is ever inspected here, so a finite
  double is kept as the rational it denotes (both zeros are \<open>Finite 0\<close>).
\<close>

datatype jsnum = Finite rat | PosInfinity | NegInfinity | NaN

text \<open>
  The values that flow through the module: what \<open>response.json()\<close> and \<open>JSON.parse\<close>
  produce, and \<open>undefined\<close>. \<open>JObj\<close> lists the own properties of a plain object,
  each name once.
\<close>

datatype jsval =
    JUndefined
  | JNull
  | JBool bool
  | JNum jsnum
  | JStr jsstring
  | JArr "jsval list"
  | JObj "(jsstring \<times> jsval) list"

text \<open>ToBoolean, as applied by \<open>if (x)\<close>, \<open>!x\<close>, \<open>x &&
    y\<close> and \<open>x || y\<close>.\<close>

fun truthy :: "jsval \<Rightarrow> bool" where
  "truthy JUndefined = False"
| "truthy JNull = False"
| "truthy (JBool b) = b"
| "truthy (JNum (Finite q)) = (q \<noteq> 0)"
| "truthy (JNum PosInfinity) = True"
| "truthy (JNum NegInfinity) = True"
| "truthy (JNum NaN) = False"
| "truthy (JStr s) = (s \<noteq> [])"
| "truthy (JArr xs) = True"
| "truthy (JObj ps) = True"

text \<open>
  Property read \<open>v.k\<close> for a name \<open>k\<close> that no built-in prototype defines (the source
  reads \<open>success\<close> and \<open>token\<close> only). On \<open>null\<close> and \<open>undefined\<close> the read throws a
  TypeError, which is \<open>None\<close>; on a primitive or an array it yields \<open>undefined\<close>.
\<close>

fun get_prop :: "jsval \<Rightarrow> jsstring \<Rightarrow> jsval option" where
  "get_prop JUndefined k = None"
| "get_prop JNull k = None"
| "get_prop (JObj ps) k = (case map_of ps k of None \<Rightarrow> Some JUndefined | Some v
    \<Rightarrow> Some v)"
| "get_prop v k = Some JUndefined"

text \<open>An evaluation either throws or returns a value.\<close>

datatype 'a completion = Throws | Returns 'a

subsection \<open>The transport\<close>

datatype http_method = GET | POST

text \<open>
  The header objects of the source. In \<open>Authorization\<close> the argument is the value
  interpolated after \<open>Bearer \<close> by the template literal.
\<close>

datatype header = ContentTypeJson | AuthorizationBearer jsval

text \<open>
  One call of \<open>fetch\<close>. \<open>verb\<close> is the option \<open>method\<close> (\<open>GET\<close> when the source
  passes none); \<open>body\<close> is the value handed to \<open>JSON.stringify\<close>; \<open>signal\<close> is
  the delay in milliseconds of \<open>AbortSignal.timeout\<close>, when one is passed.
\<close>

record request =
  url :: jsstring
  verb :: http_method
  headers :: "header list"
  body :: "jsval option"
  signal :: "nat option"

text \<open>
  A response has the flag \<open>ok\<close> (a 2xx status) and a body; \<open>json\<close> is \<open>None\<close> when
  \<open>response.json()\<close> rejects. \<open>Rejected\<close> is a \<open>fetch\<close> promise that rejects: a network
  failure, or an abort by the timeout signal.
\<close>

datatype response = Response (ok: bool) (json: "jsval option")

datatype fetch_outcome = Rejected | Resolved response

text \<open>
  The network is any function from the requests issued so far and the present request to
  an outcome.
\<close>

type_synonym transport = "request list \<Rightarrow> request \<Rightarrow> fetch_outcome"

subsection \<open>State\<close>

text \<open>
  \<open>baseUrl\<close> and \<open>token\<close> are the fields of the client (\<open>token\<close> is \<open>null\<close> at first and
  is assigned \<open>data.token\<close> unconverted). \<open>calls\<close> records every \<open>fetch\<close> and \<open>invoked\<close>
  every client method entered, oldest first, as spies on the transport and on the client
  would.
\<close>

datatype method_call =
    SetBaseUrl jsstring
  | Login jsstring jsstring
  | CheckHealth
  | GetStats
  | GetTokens

record state =
  baseUrl :: jsstring
  token :: jsval
  calls :: "request list"
  invoked :: "method_call list"

definition enter :: "method_call \<Rightarrow> state \<Rightarrow> state" where
  "enter c s = s\<lparr>invoked := invoked s @ [c]\<rparr>"

definition fetch :: "transport \<Rightarrow> request \<Rightarrow> state \<Rightarrow>
    fetch_outcome \<times> state" where
  "fetch T r s = (T (calls s) r, s\<lparr>calls := calls s @ [r]\<rparr>)"

subsection \<open>SoraApiClient\<close>

definition slash :: "16 word" where
  "slash = 0x2F"

text \<open>
  \<open>url.replace(/\/$/, '')\<close>: the regular expression has no flags, so \<open>$\<close> matches at the
  end of the input only and the first match is replaced. The scan tries each start
  position from the left for a \<open>/\<close> that is followed by the end.
\<close>

fun replace_slash_at_end :: "jsstring \<Rightarrow> jsstring" where
  "replace_slash_at_end [] = []"
| "replace_slash_at_end [c] = (if c = slash then [] else [c])"
| "replace_slash_at_end (c # d # cs) = c # replace_slash_at_end (d # cs)"

definition setBaseUrl :: "jsstring \<Rightarrow> state \<Rightarrow> state" where
  "setBaseUrl u s = (enter (SetBaseUrl u) s)\<lparr>baseUrl := replace_slash_at_end u\<rparr>"

text \<open>
  \<open>login\<close>: the request is issued first; a rejected \<open>fetch\<close>, a rejected
  \<open>response.json()\<close> and a TypeError on \<open>data.success\<close> all end in the \<open>catch\<close>
  branch. \<open>response.ok\<close> is not consulted. \<open>a && b\<close> reads \<open>b\<close> only when \<open>a\<close> is
  truthy.
\<close>

definition login_request :: "state \<Rightarrow> jsstring \<Rightarrow> jsstring \<Rightarrow>
    request" where
  "login_request s username password =
     \<lparr>url = baseUrl s @ ascii ''/api/login'',
      verb = POST,
      headers = [ContentTypeJson],
      body = Some (JObj [(ascii ''username'', JStr username), (ascii ''password'', JStr password)]),
      signal = None\<rparr>"

definition login :: "transport \<Rightarrow> jsstring \<Rightarrow> jsstring \<Rightarrow> state
    \<Rightarrow> bool \<times> state" where
  "login T username password s0 =
     (let s1 = enter (Login username password) s0;
          (outcome, s2) = fetch T (login_request s1 username password) s1
      in case outcome of
           Rejected \<Rightarrow> (False, s2)
         | Resolved resp \<Rightarrow>
             (case json resp of
                None \<Rightarrow> (False, s2)
              | Some data \<Rightarrow>
                  (case get_prop data (ascii ''success'') of
                     None \<Rightarrow> (False, s2)
                   | Some a \<Rightarrow>
                       if truthy a then
                         (case get_prop data (ascii ''token'') of
                            None \<Rightarrow> (False, s2)
                          | Some b \<Rightarrow>
                              if truthy b then (True, s2\<lparr>token := b\<rparr>) else (False,
                                  s2))
                       else (False, s2))))"

text \<open>
  \<open>getHeaders\<close> interpolates the token into a template literal, which applies ToString.
  ToString throws a TypeError on an object that has an own property \<open>toString\<close> (no
  property of parsed JSON is callable, and the inherited \<open>valueOf\<close> returns the object),
  and on an array with such an element, since \<open>join\<close> converts every element other than
  \<open>null\<close> and \<open>undefined\<close>; it completes on every other value.
\<close>

fun to_string_ok :: "jsval \<Rightarrow> bool" where
  "to_string_ok (JObj ps) = (map_of ps (ascii ''toString'') = None)"
| "to_string_ok (JArr xs) = list_all to_string_ok xs"
| "to_string_ok v = True"

definition getHeaders :: "state \<Rightarrow> header list completion" where
  "getHeaders s =
     (if truthy (token s) then
        (if to_string_ok (token s) then Returns [ContentTypeJson, AuthorizationBearer (token s)]
         else Throws)
      else Returns [ContentTypeJson])"

text \<open>
  \<open>checkHealth\<close>: \<open>AbortSignal.timeout\<close> is taken to exist, so the \<open>try\<close> block always
  reaches \<open>fetch\<close>; an abort after five seconds is one of the ways the promise rejects.
\<close>

definition health_request :: "state \<Rightarrow> request" where
  "health_request s =
     \<lparr>url = baseUrl s @ ascii ''/'', verb = GET, headers = [], body = None,
      signal = Some 5000\<rparr>"

definition checkHealth :: "transport \<Rightarrow> state \<Rightarrow> bool \<times> state" where
  "checkHealth T s0 =
     (let s1 = enter CheckHealth s0;
          (outcome, s2) = fetch T (health_request s1) s1
      in case outcome of
           Rejected \<Rightarrow> (False, s2)
         | Resolved resp \<Rightarrow> (ok resp, s2))"

definition stats_request :: "state \<Rightarrow> header list \<Rightarrow> request" where
  "stats_request s hs =
     \<lparr>url = baseUrl s @ ascii ''/api/stats'', verb = GET, headers = hs,
      body = None, signal = None\<rparr>"

text \<open>
  \<open>getStats\<close> returns \<open>SoraStats | null\<close>: the parsed body as it is, or \<open>null\<close>. The
  arguments of \<open>fetch\<close> are evaluated inside the \<open>try\<close>, so a throwing \<open>getHeaders\<close>
  ends in the \<open>catch\<close> branch before any request.
\<close>

definition getStats :: "transport \<Rightarrow> state \<Rightarrow> jsval \<times> state" where
  "getStats T s0 =
     (let s1 = enter GetStats s0
      in if \<not> truthy (token s1) then (JNull, s1)
         else
           (case getHeaders s1 of
              Throws \<Rightarrow> (JNull, s1)
            | Returns hs \<Rightarrow>
                (let (outcome, s2) = fetch T (stats_request s1 hs) s1
                 in case outcome of
                      Rejected \<Rightarrow> (JNull, s2)
                    | Resolved resp \<Rightarrow>
                        if ok resp then
                          (case json resp of None \<Rightarrow> (JNull, s2) | Some v
                              \<Rightarrow> (v, s2))
                        else (JNull, s2))))"

definition tokens_request :: "state \<Rightarrow> header list \<Rightarrow> request" where
  "tokens_request s hs =
     \<lparr>url = baseUrl s @ ascii ''/api/tokens'', verb = GET, headers = hs,
      body = None, signal = None\<rparr>"

definition getTokens :: "transport \<Rightarrow> state \<Rightarrow> jsval \<times> state" where
  "getTokens T s0 =
     (let s1 = enter GetTokens s0
      in if \<not> truthy (token s1) then (JArr [], s1)
         else
           (case getHeaders s1 of
              Throws \<Rightarrow> (JArr [], s1)
            | Returns hs \<Rightarrow>
                (let (outcome, s2) = fetch T (tokens_request s1 hs) s1
                 in case outcome of
                      Rejected \<Rightarrow> (JArr [], s2)
                    | Resolved resp \<Rightarrow>
                        if ok resp then
                          (case json resp of None \<Rightarrow> (JArr [], s2) | Some v
                              \<Rightarrow> (v, s2))
                        else (JArr [], s2))))"

subsection \<open>soraConfigApi\<close>

record SoraConfig =
  enabled :: bool
  configBaseUrl :: jsstring
  adminUser :: jsstring
  adminPass :: jsstring

text \<open>The object that a \<open>SoraConfig\<close> is at run time (field
    \<open>baseUrl\<close> of the interface).\<close>

definition config_object :: "SoraConfig \<Rightarrow> jsval" where
  "config_object c =
     JObj [(ascii ''enabled'', JBool (enabled c)), (ascii ''baseUrl'', JStr (configBaseUrl c)), (ascii ''adminUser'', JStr (adminUser c)), (ascii ''adminPass'', JStr (adminPass c))]"

definition default_config :: SoraConfig where
  "default_config =
     \<lparr>enabled = False, configBaseUrl = ascii ''http://localhost:8000'', adminUser = ascii ''admin'', adminPass = ascii ''admin''\<rparr>"

text \<open>
  \<open>localStorage\<close> is either inaccessible (every access throws) or a table of strings;
  \<open>getItem\<close> returns \<open>null\<close>, here \<open>None\<close>, for a key that is not stored.
\<close>

datatype storage = Unavailable | Items "jsstring \<rightharpoonup> jsstring"

definition getItem :: "storage \<Rightarrow> jsstring \<Rightarrow> jsstring option completion"
    where
  "getItem st k = (case st of Unavailable \<Rightarrow> Throws | Items m \<Rightarrow> Returns
      (m k))"

text \<open>
  \<open>getConfig\<close>, with \<open>JSON.parse\<close> as a parameter. \<open>if (stored)\<close> is false for \<open>null\<close>
  and for the empty string. The result of \<open>JSON.parse\<close> is returned unexamined.
\<close>

definition getConfig :: "(jsstring \<Rightarrow> jsval completion) \<Rightarrow> storage
    \<Rightarrow> jsval" where
  "getConfig JSON_parse st =
     (case getItem st (ascii ''sora_config'') of
        Throws \<Rightarrow> JNull
      | Returns stored \<Rightarrow>
          (case stored of
             None \<Rightarrow> config_object default_config
           | Some text \<Rightarrow>
               if text \<noteq> [] then
                 (case JSON_parse text of Throws \<Rightarrow> JNull | Returns v \<Rightarrow> v)
               else config_object default_config))"

text \<open>
  The result object of \<open>testConnection\<close>; \<open>stats\<close> is \<open>None\<close> when the object literal
  has no such property.
\<close>

record test_result =
  success :: bool
  message :: jsstring
  stats :: "jsval option"

text \<open>
  The message literals: \<open>Sora2API \<close> followed by U+670D U+52A1 U+4E0D U+53EF U+7528;
  the login message of line 171; the success message of line 179.
\<close>

definition msg_unavailable :: jsstring where
  "msg_unavailable = ascii ''Sora2API '' @ [0x670D, 0x52A1, 0x4E0D, 0x53EF, 0x7528]"

definition msg_login_failed :: jsstring where
  "msg_login_failed =
     [0x767B, 0x5F55, 0x5931, 0x8D25, 0xFF0C, 0x8BF7, 0x68C0, 0x67E5,
      0x7528, 0x6237, 0x540D, 0x548C, 0x5BC6, 0x7801]"

definition msg_connected :: jsstring where
  "msg_connected = [0x8FDE, 0x63A5, 0x6210, 0x529F]"

text \<open>
  \<open>testConnection\<close>. None of the four client methods has a throwing path on string
  arguments, so the outer \<open>catch\<close> is never entered and has no branch here.
  \<open>stats || undefined\<close> keeps a truthy value and replaces any other by \<open>undefined\<close>.
\<close>

definition testConnection ::
  "transport \<Rightarrow> jsstring \<Rightarrow> jsstring \<Rightarrow> jsstring \<Rightarrow>
      state \<Rightarrow> test_result \<times> state" where
  "testConnection T url0 username password s0 =
     (let s1 = setBaseUrl url0 s0;
          (healthy, s2) = checkHealth T s1
      in if \<not> healthy then
           (\<lparr>success = False, message = msg_unavailable, stats = None\<rparr>, s2)
         else
           (let (loggedIn, s3) = login T username password s2
            in if \<not> loggedIn then
                 (\<lparr>success = False, message = msg_login_failed, stats = None\<rparr>, s3)
               else
                 (let (st, s4) = getStats T s3
                  in (\<lparr>success = True, message = msg_connected,
                       stats = Some (if truthy st then st else JUndefined)\<rparr>, s4))))"

subsection \<open>The words looked for in the messages\<close>

text \<open>U+4E0D U+53EF U+7528 (unavailable) and U+767B U+5F55 U+5931 U+8D25 (login
    failed).\<close>

definition word_unavailable :: jsstring where
  "word_unavailable = [0x4E0D, 0x53EF, 0x7528]"

definition word_login_failed :: jsstring where
  "word_login_failed = [0x767B, 0x5F55, 0x5931, 0x8D25]"

subsection \<open>Stub services\<close>

text \<open>
  A stub of the service at \<open>base\<close>, as a test installs one in place of \<open>fetch\<close>: it
  routes on the URL and answers each of the three endpoints with a fixed outcome.
\<close>

definition stub_service ::
  "jsstring \<Rightarrow> fetch_outcome \<Rightarrow> fetch_outcome \<Rightarrow> fetch_outcome
      \<Rightarrow> transport" where
  "stub_service base health loginR statsR h r =
     (if url r = base @ ascii ''/'' then health
      else if url r = base @ ascii ''/api/login'' then loginR
      else if url r = base @ ascii ''/api/stats'' then statsR
      else Rejected)"

definition sample_stats :: jsval where
  "sample_stats =
     JObj [(ascii ''total_tokens'', JNum (Finite 3)), (ascii ''active_tokens'', JNum (Finite 2)),
           (ascii ''total_images'', JNum (Finite 10)), (ascii ''total_videos'', JNum (Finite 4)),
           (ascii ''today_images'', JNum (Finite 1)), (ascii ''today_videos'', JNum (Finite 0))]"

definition login_body :: "jsval \<Rightarrow> jsval \<Rightarrow> jsval" where
  "login_body a b = JObj [(ascii ''success'', a), (ascii ''token'', b)]"

definition fresh :: state where
  "fresh = \<lparr>baseUrl = [], token = JNull, calls = [], invoked = []\<rparr>"

text \<open>Two base URLs and a client that already holds a credential for the first.\<close>

definition url_a :: jsstring where
  "url_a = ascii ''http://a''"

definition url_b :: jsstring where
  "url_b = ascii ''http://b''"

definition held :: state where
  "held = \<lparr>baseUrl = url_a, token = JStr (ascii ''t''), calls = [], invoked = []\<rparr>"

definition answers :: "jsval \<Rightarrow> fetch_outcome" where
  "answers v = Resolved (Response True (Some v))"

text \<open>
  \<open>JSON.parse\<close> on the three keyword texts, for evaluating \<open>getConfig\<close> on a stored
  text. On those texts it is \<open>JSON.parse\<close>; it reports every other text as a syntax
  error, which \<open>JSON.parse\<close> does for malformed text only.
\<close>

definition parse_keywords :: "jsstring \<Rightarrow> jsval completion" where
  "parse_keywords t =
     (if t = ascii ''null'' then Returns JNull
      else if t = ascii ''true'' then Returns (JBool True)
      else if t = ascii ''false'' then Returns (JBool False)
      else Throws)"

text \<open>
  Services at \<open>base\<close>: one that answers every endpoint, one whose root does not answer,
  one that refuses the login with \<open>{success: false}\<close> and status 401, one whose stats
  endpoint answers with status 500 and no JSON, and one that grants the login with an
  empty token. Then a storage that holds the text \<open>null\<close> under the key of the
  configuration, and one that holds the text \<open>{\<close>.
\<close>

definition granted :: fetch_outcome where
  "granted = answers (login_body (JBool True) (JStr (ascii ''t2'')))"

definition serving :: "jsstring \<Rightarrow> transport" where
  "serving base =
     stub_service base (Resolved (Response True None)) granted (answers sample_stats)"

definition down :: "jsstring \<Rightarrow> transport" where
  "down base = stub_service base Rejected granted (answers sample_stats)"

definition refusing :: "jsstring \<Rightarrow> transport" where
  "refusing base =
     stub_service base (Resolved (Response True None))
       (Resolved (Response False (Some (JObj [(ascii ''success'', JBool False)]))))
       (answers sample_stats)"

definition statless :: "jsstring \<Rightarrow> transport" where
  "statless base =
     stub_service base (Resolved (Response True None)) granted (Resolved (Response False None))"

definition tokenless :: "jsstring \<Rightarrow> transport" where
  "tokenless base =
     stub_service base (Resolved (Response True None))
       (answers (login_body (JBool True) (JStr []))) (answers sample_stats)"

definition stored_null :: storage where
  "stored_null = Items [ascii ''sora_config'' \<mapsto> ascii ''null'']"

definition stored_broken :: storage where
  "stored_broken = Items [ascii ''sora_config'' \<mapsto> ascii ''{'']"

text \<open>
  Two more services at \<open>base\<close>: one that answers the login with status 401 and the body
  \<open>{success: true, token: "x"}\<close>, and one that answers it with status 200 and the body
  \<open>{success: "false", token: 5}\<close>.
\<close>

definition unauthorized :: "jsstring \<Rightarrow> transport" where
  "unauthorized base =
     stub_service base (Resolved (Response True None))
       (Resolved (Response False (Some (login_body (JBool True) (JStr (ascii ''x''))))))
       (answers sample_stats)"

definition misshapen :: "jsstring \<Rightarrow> transport" where
  "misshapen base =
     stub_service base (Resolved (Response True None))
       (answers (login_body (JStr (ascii ''false'')) (JNum (Finite 5))))
       (answers sample_stats)"

definition admin :: jsstring where
  "admin = ascii ''admin''"

section \<open>Properties\<close>

lemma replace_slash_at_end_last:
  "replace_slash_at_end u = (if u \<noteq> [] \<and> last u = slash then butlast u else u)"
  by (induction u rule: replace_slash_at_end.induct) auto

subsection \<open>Facts about the single operations\<close>

lemma ascii_simps [simp]:
  "ascii [] = []"
  "ascii (c # cs) = of_char c # ascii cs"
  by (simp_all add: ascii_def)

lemma setBaseUrl_fields [simp]:
  "baseUrl (setBaseUrl u s) = replace_slash_at_end u"
  "token (setBaseUrl u s) = token s"
  "calls (setBaseUrl u s) = calls s"
  "invoked (setBaseUrl u s) = invoked s @ [SetBaseUrl u]"
  by (simp_all add: setBaseUrl_def enter_def)

lemma request_enter [simp]:
  "health_request (enter c s) = health_request s"
  "login_request (enter c s) u p = login_request s u p"
  "stats_request (enter c s) hs = stats_request s hs"
  "tokens_request (enter c s) hs = tokens_request s hs"
  "getHeaders (enter c s) = getHeaders s"
  by (simp_all add: health_request_def login_request_def stats_request_def tokens_request_def
      getHeaders_def enter_def)

lemma checkHealth_result:
  "fst (checkHealth T s) =
     (case T (calls s) (health_request s) of Rejected \<Rightarrow> False | Resolved resp
         \<Rightarrow> ok resp)"
  by (simp add: checkHealth_def fetch_def Let_def enter_def health_request_def split:
      fetch_outcome.splits)

lemma checkHealth_state:
  "snd (checkHealth T s) =
     s\<lparr>calls := calls s @ [health_request s], invoked := invoked s @ [CheckHealth]\<rparr>"
  by (simp add: checkHealth_def fetch_def Let_def enter_def health_request_def split:
      fetch_outcome.splits)

lemma login_frame:
  "baseUrl (snd (login T u p s)) = baseUrl s"
  "calls (snd (login T u p s)) = calls s @ [login_request s u p]"
  "invoked (snd (login T u p s)) = invoked s @ [Login u p]"
  by (simp_all add: login_def fetch_def Let_def enter_def login_request_def
      split: fetch_outcome.splits option.splits)

lemma login_failed_token:
  "\<not> fst (login T u p s) \<Longrightarrow> token (snd (login T u p s)) = token s"
  by (auto simp add: login_def fetch_def Let_def enter_def
      split: fetch_outcome.splits option.splits if_splits)

lemma getStats_frame:
  "baseUrl (snd (getStats T s)) = baseUrl s"
  "token (snd (getStats T s)) = token s"
  "invoked (snd (getStats T s)) = invoked s @ [GetStats]"
  "calls (snd (getStats T s)) =
     (if truthy (token s) \<and> to_string_ok (token s)
      then calls s @ [stats_request s [ContentTypeJson, AuthorizationBearer (token s)]]
      else calls s)"
  by (simp_all add: getStats_def fetch_def Let_def enter_def stats_request_def getHeaders_def
      split: fetch_outcome.splits option.splits)

lemma testConnection_unfold:
  "testConnection T b u p s =
    (let s1 = setBaseUrl b s; h = checkHealth T s1
     in if \<not> fst h then (\<lparr>success = False, message = msg_unavailable, stats =
         None\<rparr>, snd h)
        else let l = login T u p (snd h)
             in if \<not> fst l then (\<lparr>success = False, message = msg_login_failed, stats
                 = None\<rparr>, snd l)
                else let g = getStats T (snd l)
                     in (\<lparr>success = True, message = msg_connected,
                          stats = Some (if truthy (fst g) then fst g else JUndefined)\<rparr>,
                              snd g))"
  by (simp add: testConnection_def Let_def split: prod.splits)

lemma msg_unavailable_word: "sublist word_unavailable msg_unavailable"
proof -
  have "msg_unavailable = (ascii ''Sora2API '' @ [0x670D, 0x52A1]) @ word_unavailable @ []"
    by (simp add: msg_unavailable_def word_unavailable_def)
  then show ?thesis
    by (metis sublist_appendI)
qed

lemma msg_login_failed_word: "sublist word_login_failed msg_login_failed"
proof -
  have "msg_login_failed =
      [] @ word_login_failed @ [0xFF0C, 0x8BF7, 0x68C0, 0x67E5, 0x7528, 0x6237, 0x540D, 0x548C,
          0x5BC6, 0x7801]"
    by (simp add: msg_login_failed_def word_login_failed_def)
  then show ?thesis
    by (metis sublist_appendI)
qed

text \<open>The definitions unfolded to evaluate the model on a concrete input.\<close>

lemmas eval_defs =
  testConnection_def setBaseUrl_def checkHealth_def login_def getStats_def getTokens_def
  fetch_def enter_def Let_def health_request_def login_request_def stats_request_def
  tokens_request_def getHeaders_def stub_service_def serving_def down_def refusing_def
  statless_def tokenless_def unauthorized_def misshapen_def granted_def answers_def login_body_def sample_stats_def fresh_def
      held_def
  url_a_def url_b_def admin_def slash_def

subsection \<open>setBaseUrl\<close>

text \<open>
  C6. For every URL, \<open>setBaseUrl\<close> stores the URL without its last character when that
  character is \<open>/\<close> and stores it as it is otherwise, so exactly one trailing slash goes
  and nothing else changes: \<open>http://x/\<close> is stored as \<open>http://x\<close> and \<open>http://x//\<close> as
  \<open>http://x/\<close>. The session credential is left as it was, and no request is issued.
\<close>

theorem setBaseUrl_strips_one_trailing_slash:
  "baseUrl (setBaseUrl u s) = (if u \<noteq> [] \<and> last u = slash then butlast u else u)
   \<and> token (setBaseUrl u s) = token s
   \<and> calls (setBaseUrl u s) = calls s
   \<and> baseUrl (setBaseUrl (ascii ''http://x/'') s) = ascii ''http://x''
   \<and> baseUrl (setBaseUrl (ascii ''http://x//'') s) = ascii ''http://x/''"
  by (simp add: replace_slash_at_end_last slash_def)

theorem setBaseUrl_strips_one_trailing_slash_witness:
  "baseUrl (setBaseUrl (ascii ''http://localhost:8000/'') held) = ascii ''http://localhost:8000''
   \<and> baseUrl (setBaseUrl (ascii ''http://localhost:8000'') held) = ascii
       ''http://localhost:8000''
   \<and> token (setBaseUrl (ascii ''http://localhost:8000/'') held) = JStr (ascii ''t'')"
  using setBaseUrl_strips_one_trailing_slash [of "ascii ''http://localhost:8000/''" held]
    setBaseUrl_strips_one_trailing_slash [of "ascii ''http://localhost:8000''" held]
  by (simp add: slash_def held_def)

subsection \<open>testConnection\<close>

text \<open>
  C1. Whenever \<open>checkHealth\<close> returns false inside \<open>testConnection\<close>, the result has
  \<open>success: false\<close>, its message contains U+4E0D U+53EF U+7528, it has no \<open>stats\<close>,
  the only client methods entered are \<open>setBaseUrl\<close> and \<open>checkHealth\<close> (neither
  \<open>login\<close> nor \<open>getStats\<close>), and the only request issued is the health probe.
\<close>

theorem testConnection_unhealthy:
  assumes "\<not> fst (checkHealth T (setBaseUrl b s))"
  shows "success (fst (testConnection T b u p s)) = False
    \<and> sublist word_unavailable (message (fst (testConnection T b u p s)))
    \<and> stats (fst (testConnection T b u p s)) = None
    \<and> invoked (snd (testConnection T b u p s)) = invoked s @ [SetBaseUrl b, CheckHealth]
    \<and> calls (snd (testConnection T b u p s)) =
        calls s @ [\<lparr>url = replace_slash_at_end b @ ascii ''/'', verb = GET, headers = [],
                     body = None, signal = Some 5000\<rparr>]"
  using assms
  by (simp add: testConnection_unfold Let_def checkHealth_state msg_unavailable_word
      health_request_def)

theorem testConnection_unhealthy_witness:
  "\<not> fst (checkHealth (down url_b) (setBaseUrl (url_b @ ascii ''/'') held))
   \<and> (success (fst (testConnection (down url_b) (url_b @ ascii ''/'') admin admin held)) =
       False
    \<and> sublist word_unavailable
         (message (fst (testConnection (down url_b) (url_b @ ascii ''/'') admin admin held)))
    \<and> stats (fst (testConnection (down url_b) (url_b @ ascii ''/'') admin admin held)) = None
    \<and> invoked (snd (testConnection (down url_b) (url_b @ ascii ''/'') admin admin held)) =
        invoked held @ [SetBaseUrl (url_b @ ascii ''/''), CheckHealth]
    \<and> calls (snd (testConnection (down url_b) (url_b @ ascii ''/'') admin admin held)) =
        calls held @ [\<lparr>url = replace_slash_at_end (url_b @ ascii ''/'') @ ascii ''/'',
                        verb = GET, headers = [], body = None, signal = Some 5000\<rparr>])"
proof -
  have h: "\<not> fst (checkHealth (down url_b) (setBaseUrl (url_b @ ascii ''/'') held))"
    by (simp add: eval_defs)
  from h testConnection_unhealthy [OF h] show ?thesis
    by (rule conjI)
qed

text \<open>
  C2. Whenever \<open>checkHealth\<close> returns true and \<open>login\<close> then returns false, the result
  has \<open>success: false\<close>, its message contains U+767B U+5F55 U+5931 U+8D25, it has no
  \<open>stats\<close> property, and \<open>getStats\<close> is not entered: the methods entered are
  \<open>setBaseUrl\<close>, \<open>checkHealth\<close> and \<open>login\<close>, and the requests issued are the health
  probe and the login.
\<close>

theorem testConnection_login_fails:
  assumes "fst (checkHealth T (setBaseUrl b s))"
    and "\<not> fst (login T u p (snd (checkHealth T (setBaseUrl b s))))"
  shows "success (fst (testConnection T b u p s)) = False
    \<and> sublist word_login_failed (message (fst (testConnection T b u p s)))
    \<and> stats (fst (testConnection T b u p s)) = None
    \<and> invoked (snd (testConnection T b u p s)) =
        invoked s @ [SetBaseUrl b, CheckHealth, Login u p]
    \<and> calls (snd (testConnection T b u p s)) =
        calls s @ [\<lparr>url = replace_slash_at_end b @ ascii ''/'', verb = GET, headers = [],
                     body = None, signal = Some 5000\<rparr>,
                   \<lparr>url = replace_slash_at_end b @ ascii ''/api/login'', verb = POST,
                     headers = [ContentTypeJson],
                     body = Some (JObj [(ascii ''username'', JStr u),
                                        (ascii ''password'', JStr p)]),
                     signal = None\<rparr>]"
  using assms
  by (simp add: testConnection_unfold Let_def checkHealth_state msg_login_failed_word
      health_request_def login_frame login_request_def)

theorem testConnection_login_fails_witness:
  "fst (checkHealth (refusing url_b) (setBaseUrl (url_b @ ascii ''/'') held))
   \<and> \<not> fst (login (refusing url_b) admin admin
              (snd (checkHealth (refusing url_b) (setBaseUrl (url_b @ ascii ''/'') held))))
   \<and> success (fst (testConnection (refusing url_b) (url_b @ ascii ''/'') admin admin held))
       = False
   \<and> sublist word_login_failed
        (message (fst (testConnection (refusing url_b) (url_b @ ascii ''/'') admin admin held)))
   \<and> stats (fst (testConnection (refusing url_b) (url_b @ ascii ''/'') admin admin held)) =
       None
   \<and> invoked (snd (testConnection (refusing url_b) (url_b @ ascii ''/'') admin admin held))
       = invoked held @ [SetBaseUrl (url_b @ ascii ''/''), CheckHealth, Login admin admin]
   \<and> token (snd (testConnection (refusing url_b) (url_b @ ascii ''/'') admin admin held)) =
       JStr (ascii ''t'')"
proof -
  have h1: "fst (checkHealth (refusing url_b) (setBaseUrl (url_b @ ascii ''/'') held))"
    by (simp add: eval_defs)
  have h2: "\<not> fst (login (refusing url_b) admin admin
              (snd (checkHealth (refusing url_b) (setBaseUrl (url_b @ ascii ''/'') held))))"
    by (simp add: eval_defs)
  have kept: "token (snd (testConnection (refusing url_b) (url_b @ ascii ''/'') admin admin
      held)) = JStr (ascii ''t'')"
    by (simp add: eval_defs)
  from h1 h2 kept testConnection_login_fails [OF h1 h2] show ?thesis
    by simp
qed

text \<open>
  C3. Whenever \<open>checkHealth\<close> and \<open>login\<close> both return true, the result has
  \<open>success: true\<close> whatever \<open>getStats\<close> returns; when \<open>getStats\<close> returns \<open>null\<close> the
  \<open>stats\<close> property is \<open>undefined\<close>, and when it returns a truthy value that value is
  the \<open>stats\<close> property.
\<close>

theorem testConnection_stats_optional:
  assumes "fst (checkHealth T (setBaseUrl b s))"
    and "fst (login T u p (snd (checkHealth T (setBaseUrl b s))))"
  shows "success (fst (testConnection T b u p s)) = True
    \<and> message (fst (testConnection T b u p s)) = msg_connected
    \<and> (fst (getStats T (snd (login T u p (snd (checkHealth T (setBaseUrl b s)))))) = JNull
         \<longrightarrow> stats (fst (testConnection T b u p s)) = Some JUndefined)
    \<and> (truthy (fst (getStats T (snd (login T u p (snd (checkHealth T (setBaseUrl b s)))))))
         \<longrightarrow> stats (fst (testConnection T b u p s)) =
              Some (fst (getStats T (snd (login T u p (snd (checkHealth T (setBaseUrl b s))))))))"
  using assms
  by (simp add: testConnection_unfold Let_def)

theorem testConnection_stats_optional_witness:
  "fst (checkHealth (statless url_b) (setBaseUrl (url_b @ ascii ''/'') held))
   \<and> fst (login (statless url_b) admin admin
              (snd (checkHealth (statless url_b) (setBaseUrl (url_b @ ascii ''/'') held))))
   \<and> fst (getStats (statless url_b) (snd (login (statless url_b) admin admin
              (snd (checkHealth (statless url_b) (setBaseUrl (url_b @ ascii ''/'') held))))))
       = JNull
   \<and> success (fst (testConnection (statless url_b) (url_b @ ascii ''/'') admin admin held))
       = True
   \<and> stats (fst (testConnection (statless url_b) (url_b @ ascii ''/'') admin admin held)) =
       Some JUndefined"
proof -
  have h1: "fst (checkHealth (statless url_b) (setBaseUrl (url_b @ ascii ''/'') held))"
    by (simp add: eval_defs)
  have h2: "fst (login (statless url_b) admin admin
              (snd (checkHealth (statless url_b) (setBaseUrl (url_b @ ascii ''/'') held))))"
    by (simp add: eval_defs)
  have h3: "fst (getStats (statless url_b) (snd (login (statless url_b) admin admin
              (snd (checkHealth (statless url_b) (setBaseUrl (url_b @ ascii ''/'') held))))))
       = JNull"
    by (simp add: eval_defs)
  from h1 h2 h3 testConnection_stats_optional [OF h1 h2] show ?thesis
    by simp
qed

subsection \<open>getStats and getTokens without a credential\<close>

text \<open>
  C4. In every client state whose \<open>token\<close> is \<open>null\<close>, \<open>getStats\<close> returns \<open>null\<close> and
  \<open>getTokens\<close> returns the empty array, and neither issues a request: the list of
  \<open>fetch\<close> calls is the same after the call as before it, whatever the transport.
\<close>

theorem no_credential_no_request:
  assumes "token s = JNull"
  shows "fst (getStats T s) = JNull
    \<and> calls (snd (getStats T s)) = calls s
    \<and> fst (getTokens T s) = JArr []
    \<and> calls (snd (getTokens T s)) = calls s"
  using assms
  by (simp add: getStats_def getTokens_def Let_def enter_def)

theorem no_credential_no_request_witness:
  "token (fresh\<lparr>baseUrl := url_b\<rparr>) = JNull
   \<and> (fst (getStats (serving url_b) (fresh\<lparr>baseUrl := url_b\<rparr>)) = JNull
    \<and> calls (snd (getStats (serving url_b) (fresh\<lparr>baseUrl := url_b\<rparr>))) =
        calls (fresh\<lparr>baseUrl := url_b\<rparr>)
    \<and> fst (getTokens (serving url_b) (fresh\<lparr>baseUrl := url_b\<rparr>)) = JArr []
    \<and> calls (snd (getTokens (serving url_b) (fresh\<lparr>baseUrl := url_b\<rparr>))) =
        calls (fresh\<lparr>baseUrl := url_b\<rparr>))"
proof -
  have h: "token (fresh\<lparr>baseUrl := url_b\<rparr>) = JNull"
    by (simp add: fresh_def)
  from h no_credential_no_request [OF h] show ?thesis
    by (rule conjI)
qed

subsection \<open>login\<close>

text \<open>
  C5, as amended. For every prior state and every \<open>login\<close> call that returns false, the
  stored credential (and the base URL) is exactly what it was, so the credential changes
  only when \<open>login\<close> returns true; and \<open>login\<close> returns false on a rejected \<open>fetch\<close>
  (network failure), on a body that is not JSON, on a body whose \<open>success\<close> cannot be
  read (\<open>null\<close>), on a body whose \<open>success\<close> is falsy, and on a body whose \<open>token\<close> is
  falsy. The body of a 2xx response whose \<open>success\<close> and \<open>token\<close> are both truthy is
  accepted whatever its shape, and its \<open>token\<close> is stored as it is.
\<close>

theorem login_failure_keeps_credential:
  "(\<not> fst (login T u p s) \<longrightarrow> token (snd (login T u p s)) = token s)
   \<and> baseUrl (snd (login T u p s)) = baseUrl s
   \<and> (T (calls s) (login_request s u p) = Rejected
        \<longrightarrow> \<not> fst (login T u p s))
   \<and> (T (calls s) (login_request s u p) = Resolved (Response k None)
        \<longrightarrow> \<not> fst (login T u p s))
   \<and> (T (calls s) (login_request s u p) = Resolved (Response k (Some d))
        \<and> get_prop d (ascii ''success'') = None
        \<longrightarrow> \<not> fst (login T u p s))
   \<and> (T (calls s) (login_request s u p) = Resolved (Response k (Some d))
        \<and> get_prop d (ascii ''success'') = Some a \<and> \<not> truthy a
        \<longrightarrow> \<not> fst (login T u p s))
   \<and> (T (calls s) (login_request s u p) = Resolved (Response k (Some d))
        \<and> get_prop d (ascii ''token'') = Some b \<and> \<not> truthy b
        \<longrightarrow> \<not> fst (login T u p s))
   \<and> (T (calls s) (login_request s u p) = Resolved (Response True (Some d))
        \<and> get_prop d (ascii ''success'') = Some a \<and> truthy a
        \<and> get_prop d (ascii ''token'') = Some b \<and> truthy b
        \<longrightarrow> fst (login T u p s) \<and> token (snd (login T u p s)) = b)"
  by (simp add: login_failed_token login_frame)
     (auto simp add: login_def fetch_def Let_def enter_def login_request_def
       split: option.splits)

theorem login_failure_keeps_credential_witness:
  "refusing url_a (calls held) (login_request held admin admin) =
     Resolved (Response False (Some (JObj [(ascii ''success'', JBool False)])))
   \<and> \<not> fst (login (refusing url_a) admin admin held)
   \<and> token (snd (login (refusing url_a) admin admin held)) = token held
   \<and> fst (getStats (refusing url_a) (snd (login (refusing url_a) admin admin held))) =
       sample_stats"
proof -
  have h: "refusing url_a (calls held) (login_request held admin admin) =
     Resolved (Response False (Some (JObj [(ascii ''success'', JBool False)])))"
    by (simp add: eval_defs)
  have g: "get_prop (JObj [(ascii ''success'', JBool False)]) (ascii ''success'') =
     Some (JBool False)"
    by simp
  have st: "fst (getStats (refusing url_a) (snd (login (refusing url_a) admin admin held))) =
       sample_stats"
    by (simp add: eval_defs)
  have c: "\<not> fst (login (refusing url_a) admin admin held)
      \<and> token (snd (login (refusing url_a) admin admin held)) = token held"
    using h g
      login_failure_keeps_credential [where T = "refusing url_a" and u = admin and p = admin
        and s = held and k = False and d = "JObj [(ascii ''success'', JBool False)]"
        and a = "JBool False" and b = JUndefined]
    by simp
  from h c st show ?thesis
    by simp
qed

text \<open>
  C5 as stated fails, on a non-success response and on a malformed payload. The client
  holds the credential \<open>t\<close>. A response with status 401 and the body
  \<open>{success: true, token: "x"}\<close> makes \<open>login\<close> return true and store \<open>x\<close>; a response
  with the body \<open>{success: "false", token: 5}\<close> makes it return true and store the
  number 5.
\<close>

theorem login_false_on_every_failure_counterexample:
  "token held = JStr (ascii ''t'')
   \<and> unauthorized url_a (calls held) (login_request held admin admin) =
       Resolved (Response False (Some (login_body (JBool True) (JStr (ascii ''x'')))))
   \<and> fst (login (unauthorized url_a) admin admin held)
   \<and> token (snd (login (unauthorized url_a) admin admin held)) = JStr (ascii ''x'')
   \<and> misshapen url_a (calls held) (login_request held admin admin) =
       Resolved (Response True (Some (login_body (JStr (ascii ''false'')) (JNum (Finite 5)))))
   \<and> fst (login (misshapen url_a) admin admin held)
   \<and> token (snd (login (misshapen url_a) admin admin held)) = JNum (Finite 5)"
  by (simp add: eval_defs)

text \<open>
  C10. For every \<open>login\<close> whose response body parses as JSON, \<open>login\<close> returns true if
  and only if the body's \<open>success\<close> and \<open>token\<close> are both readable and truthy; when it
  returns true the stored credential is the body's \<open>token\<close>, and when it returns false
  the stored credential is unchanged. In particular the body
  \<open>{success: true, token: ""}\<close> makes \<open>login\<close> return false and store nothing.
\<close>

theorem login_iff_success_and_token:
  assumes "T (calls s) (login_request s u p) = Resolved (Response k (Some d))"
  shows "(fst (login T u p s) \<longleftrightarrow>
           (\<exists>a b. get_prop d (ascii ''success'') = Some a \<and> truthy a
                \<and> get_prop d (ascii ''token'') = Some b \<and> truthy b))
    \<and> (fst (login T u p s) \<longrightarrow>
          get_prop d (ascii ''token'') = Some (token (snd (login T u p s))))
    \<and> (\<not> fst (login T u p s) \<longrightarrow> token (snd (login T u p s)) = token s)
    \<and> (d = login_body (JBool True) (JStr []) \<longrightarrow>
          \<not> fst (login T u p s) \<and> token (snd (login T u p s)) = token s)"
  using assms
  by (auto simp add: login_def fetch_def Let_def enter_def login_request_def login_body_def
      split: option.splits)

theorem login_iff_success_and_token_witness:
  "tokenless url_a (calls held) (login_request held admin admin) =
     Resolved (Response True (Some (login_body (JBool True) (JStr []))))
   \<and> \<not> fst (login (tokenless url_a) admin admin held)
   \<and> token (snd (login (tokenless url_a) admin admin held)) = token held"
proof -
  have h: "tokenless url_a (calls held) (login_request held admin admin) =
     Resolved (Response True (Some (login_body (JBool True) (JStr []))))"
    by (simp add: eval_defs)
  have c: "\<not> fst (login (tokenless url_a) admin admin held)
      \<and> token (snd (login (tokenless url_a) admin admin held)) = token held"
    using login_iff_success_and_token [where T = "tokenless url_a" and s = held and u = admin
      and p = admin and k = True and d = "login_body (JBool True) (JStr [])", OF h]
    by blast
  from h c show ?thesis
    by (rule conjI)
qed

subsection \<open>The credential and the base URL\<close>

text \<open>
  C7, as amended. Changing the base URL does not invalidate the credential: for every
  state that holds a credential (truthy, and convertible to a string as every string is),
  \<open>setBaseUrl\<close> leaves it stored, and a \<open>getStats\<close> that follows without a new login
  sends one authenticated request, carrying that credential, to the stats endpoint of the
  new base URL, and returns what a 2xx JSON answer to it contains.
\<close>

theorem setBaseUrl_keeps_credential_in_use:
  assumes "truthy (token s)" and "to_string_ok (token s)"
  shows "token (setBaseUrl b s) = token s
    \<and> calls (snd (getStats T (setBaseUrl b s))) =
        calls s @ [\<lparr>url = replace_slash_at_end b @ ascii ''/api/stats'', verb = GET,
                     headers = [ContentTypeJson, AuthorizationBearer (token s)],
                     body = None, signal = None\<rparr>]
    \<and> (T (calls s) \<lparr>url = replace_slash_at_end b @ ascii ''/api/stats'', verb = GET,
                     headers = [ContentTypeJson, AuthorizationBearer (token s)],
                     body = None, signal = None\<rparr> = answers v
         \<longrightarrow> fst (getStats T (setBaseUrl b s)) = v)"
  using assms
  by (simp add: getStats_frame stats_request_def)
     (simp add: getStats_def fetch_def Let_def enter_def stats_request_def getHeaders_def
         answers_def)

theorem setBaseUrl_keeps_credential_in_use_witness:
  "truthy (token held) \<and> to_string_ok (token held)
   \<and> token (setBaseUrl url_b held) = token held
   \<and> calls (snd (getStats (serving url_b) (setBaseUrl url_b held))) =
        [\<lparr>url = ascii ''http://b/api/stats'', verb = GET,
          headers = [ContentTypeJson, AuthorizationBearer (JStr (ascii ''t''))],
          body = None, signal = None\<rparr>]"
proof -
  have h: "truthy (token held)" "to_string_ok (token held)"
    by (simp_all add: held_def)
  from h setBaseUrl_keeps_credential_in_use [OF h, of url_b "serving url_b" sample_stats]
  show ?thesis
    by (simp add: held_def url_b_def slash_def)
qed

text \<open>
  C7 as stated fails: the client holds the credential \<open>t\<close> for \<open>http://a\<close>; after
  \<open>setBaseUrl\<close> with \<open>http://b\<close> the credential is still stored and \<open>getStats\<close> returns
  the stats of the service at \<open>http://b\<close> after one request, where a client without a
  credential returns \<open>null\<close> after none.
\<close>

theorem setBaseUrl_invalidates_counterexample:
  "truthy (token held)
   \<and> replace_slash_at_end url_b \<noteq> baseUrl held
   \<and> token (setBaseUrl url_b held) = JStr (ascii ''t'')
   \<and> fst (getStats (serving url_b) (setBaseUrl url_b held)) = sample_stats
   \<and> length (calls (snd (getStats (serving url_b) (setBaseUrl url_b held)))) = 1
   \<and> fst (getStats (serving url_b) ((setBaseUrl url_b held)\<lparr>token := JNull\<rparr>)) =
       JNull
   \<and> calls (snd (getStats (serving url_b)
        ((setBaseUrl url_b held)\<lparr>token := JNull\<rparr>))) = []"
  by (simp add: eval_defs)



subsection \<open>getConfig\<close>

text \<open>
  C8, as amended. When nothing is stored under \<open>sora_config\<close>, \<open>getConfig\<close> returns the
  default record \<open>{enabled: false, baseUrl: 'http://localhost:8000', adminUser: 'admin',
  adminPass: 'admin'}\<close>. It returns \<open>null\<close> exactly when the storage access throws, or
  a non-empty stored text fails to parse, or a non-empty stored text parses to \<open>null\<close>.
\<close>

theorem getConfig_null_cases:
  "(getItem st (ascii ''sora_config'') = Returns None \<longrightarrow>
      getConfig P st =
        JObj [(ascii ''enabled'', JBool False),
              (ascii ''baseUrl'', JStr (ascii ''http://localhost:8000'')),
              (ascii ''adminUser'', JStr (ascii ''admin'')),
              (ascii ''adminPass'', JStr (ascii ''admin''))])
   \<and> (getConfig P st = JNull \<longleftrightarrow>
        getItem st (ascii ''sora_config'') = Throws
        \<or> (\<exists>t. getItem st (ascii ''sora_config'') = Returns (Some t)
              \<and> t \<noteq> []
              \<and> (P t = Throws \<or> P t = Returns JNull)))"
  by (auto simp add: getConfig_def config_object_def default_config_def
      split: completion.splits option.splits)

theorem getConfig_null_cases_witness:
  "getItem (Items Map.empty) (ascii ''sora_config'') = Returns None
   \<and> getConfig parse_keywords (Items Map.empty) = config_object default_config
   \<and> getItem stored_broken (ascii ''sora_config'') = Returns (Some (ascii ''{''))
   \<and> parse_keywords (ascii ''{'') = Throws
   \<and> getConfig parse_keywords stored_broken = JNull
   \<and> getConfig parse_keywords Unavailable = JNull"
proof -
  have h1: "getItem (Items Map.empty) (ascii ''sora_config'') = Returns None"
    by (simp add: getItem_def)
  have h2: "getItem stored_broken (ascii ''sora_config'') = Returns (Some (ascii ''{''))"
    by (simp add: getItem_def stored_broken_def)
  have h3: "parse_keywords (ascii ''{'') = Throws"
    by (simp add: parse_keywords_def)
  have h4: "getItem Unavailable (ascii ''sora_config'') = Throws"
    by (simp add: getItem_def)
  from h1 h2 h3 h4
    getConfig_null_cases [of "Items Map.empty" parse_keywords]
    getConfig_null_cases [of stored_broken parse_keywords]
    getConfig_null_cases [of Unavailable parse_keywords]
  show ?thesis
    by (simp add: config_object_def default_config_def)
qed

text \<open>
  C8 as stated fails: with the text \<open>null\<close> stored under the key, the read returns the
  text, \<open>JSON.parse\<close> returns \<open>null\<close> without throwing, and \<open>getConfig\<close> returns \<open>null\<close>.
\<close>

theorem getConfig_null_only_on_failure_counterexample:
  "getItem stored_null (ascii ''sora_config'') = Returns (Some (ascii ''null''))
   \<and> parse_keywords (ascii ''null'') = Returns JNull
   \<and> getConfig parse_keywords stored_null = JNull"
  by (simp add: getConfig_def getItem_def stored_null_def parse_keywords_def)

end
